theory Spec2Isabelle
  imports Complex_Main
begin

section \<open>JavaScript numbers and values\<close>

text \<open>
  The engine computes with JavaScript numbers. A number is modelled as NaN, one of the two
  infinities, or a finite value. Finite values are exact reals: the rounding error of a
  double, overflow of a finite result to an infinity, and the sign of zero are not modelled
  (every zero is +0). An argument of a call is a value: a number or \<open>undefined\<close>, which
  is what a missing argument is.
\<close>

datatype num = NaN | NegInf | Fin real | PosInf

datatype jsval = Undefined | Num num

text \<open>ToNumber: \<open>undefined\<close> becomes NaN.\<close>

fun to_number :: "jsval \<Rightarrow> num" where
  "to_number Undefined = NaN"
| "to_number (Num n) = n"

text \<open>ToBoolean on these values: \<open>undefined\<close>, NaN and 0 are falsy.\<close>

fun truthy :: "jsval \<Rightarrow> bool" where
  "truthy Undefined = False"
| "truthy (Num NaN) = False"
| "truthy (Num (Fin r)) = (r \<noteq> 0)"
| "truthy (Num NegInf) = True"
| "truthy (Num PosInf) = True"

text \<open>\<open>a || b\<close>\<close>

definition js_or :: "jsval \<Rightarrow> jsval \<Rightarrow> jsval" where
  "js_or a b = (if truthy a then a else b)"

text \<open>The arithmetic of numbers, as IEEE 754 defines it on NaN and the infinities.\<close>

fun num_neg :: "num \<Rightarrow> num" where
  "num_neg NaN = NaN"
| "num_neg NegInf = PosInf"
| "num_neg PosInf = NegInf"
| "num_neg (Fin a) = Fin (- a)"

fun num_add :: "num \<Rightarrow> num \<Rightarrow> num" where
  "num_add NaN _ = NaN"
| "num_add _ NaN = NaN"
| "num_add PosInf NegInf = NaN"
| "num_add NegInf PosInf = NaN"
| "num_add PosInf _ = PosInf"
| "num_add _ PosInf = PosInf"
| "num_add NegInf _ = NegInf"
| "num_add _ NegInf = NegInf"
| "num_add (Fin a) (Fin b) = Fin (a + b)"

definition num_sub :: "num \<Rightarrow> num \<Rightarrow> num" where
  "num_sub a b = num_add a (num_neg b)"

text \<open>The sign of a number other than NaN and zero: \<open>True\<close> for negative.\<close>

fun num_negative :: "num \<Rightarrow> bool" where
  "num_negative NegInf = True"
| "num_negative (Fin a) = (a < 0)"
| "num_negative _ = False"

fun num_is_zero :: "num \<Rightarrow> bool" where
  "num_is_zero (Fin a) = (a = 0)"
| "num_is_zero _ = False"

fun num_is_inf :: "num \<Rightarrow> bool" where
  "num_is_inf NegInf = True"
| "num_is_inf PosInf = True"
| "num_is_inf _ = False"

definition signed_inf :: "bool \<Rightarrow> num" where
  "signed_inf negative = (if negative then NegInf else PosInf)"

fun num_mul :: "num \<Rightarrow> num \<Rightarrow> num" where
  "num_mul NaN _ = NaN"
| "num_mul _ NaN = NaN"
| "num_mul (Fin a) (Fin b) = Fin (a * b)"
| "num_mul a b =
     (if num_is_zero a \<or> num_is_zero b then NaN
      else signed_inf (num_negative a \<noteq> num_negative b))"

fun num_div :: "num \<Rightarrow> num \<Rightarrow> num" where
  "num_div NaN _ = NaN"
| "num_div _ NaN = NaN"
| "num_div (Fin a) (Fin b) =
     (if b \<noteq> 0 then Fin (a / b)
      else if a = 0 then NaN
      else signed_inf (a < 0))"
| "num_div (Fin a) _ = Fin 0"
| "num_div a (Fin b) = signed_inf (num_negative a \<noteq> (b < 0))"
| "num_div _ _ = NaN"

fun num_lt :: "num \<Rightarrow> num \<Rightarrow> bool" where
  "num_lt NaN _ = False"
| "num_lt _ NaN = False"
| "num_lt PosInf _ = False"
| "num_lt _ NegInf = False"
| "num_lt (Fin a) (Fin b) = (a < b)"
| "num_lt _ _ = True"

definition num_gt :: "num \<Rightarrow> num \<Rightarrow> bool" where
  "num_gt a b = num_lt b a"

text \<open>\<open>a <= b\<close> is false when either side is NaN.\<close>

fun num_le :: "num \<Rightarrow> num \<Rightarrow> bool" where
  "num_le NaN _ = False"
| "num_le _ NaN = False"
| "num_le a b = (\<not> num_lt b a)"

definition num_ge :: "num \<Rightarrow> num \<Rightarrow> bool" where
  "num_ge a b = num_le b a"

text \<open>Strict equality \<open>===\<close>: NaN is not equal to anything, itself included.\<close>

fun strict_eq :: "jsval \<Rightarrow> jsval \<Rightarrow> bool" where
  "strict_eq Undefined Undefined = True"
| "strict_eq (Num NaN) _ = False"
| "strict_eq _ (Num NaN) = False"
| "strict_eq (Num a) (Num b) = (a = b)"
| "strict_eq _ _ = False"

text \<open>\<open>Math.abs\<close>, \<open>Math.min\<close>, \<open>Math.max\<close>, \<open>Math.round\<close>, \<open>Math.sqrt\<close>.\<close>

fun Math_abs :: "num \<Rightarrow> num" where
  "Math_abs NaN = NaN"
| "Math_abs NegInf = PosInf"
| "Math_abs PosInf = PosInf"
| "Math_abs (Fin a) = Fin \<bar>a\<bar>"

fun Math_min :: "num \<Rightarrow> num \<Rightarrow> num" where
  "Math_min NaN _ = NaN"
| "Math_min _ NaN = NaN"
| "Math_min a b = (if num_lt b a then b else a)"

fun Math_max :: "num \<Rightarrow> num \<Rightarrow> num" where
  "Math_max NaN _ = NaN"
| "Math_max _ NaN = NaN"
| "Math_max a b = (if num_lt a b then b else a)"

text \<open>\<open>Math.max(...xs)\<close>: minus infinity for no argument, NaN if any argument is NaN.\<close>

definition Math_max_list :: "num list \<Rightarrow> num" where
  "Math_max_list xs = foldr Math_max xs NegInf"

text \<open>\<open>Math.round\<close> rounds to the nearest integer, a half towards plus infinity.\<close>

fun Math_round :: "num \<Rightarrow> num" where
  "Math_round (Fin a) = Fin (of_int \<lfloor>a + 1 / 2\<rfloor>)"
| "Math_round n = n"

fun Math_sqrt :: "num \<Rightarrow> num" where
  "Math_sqrt NaN = NaN"
| "Math_sqrt NegInf = NaN"
| "Math_sqrt PosInf = PosInf"
| "Math_sqrt (Fin a) = (if a < 0 then NaN else Fin (sqrt a))"

section \<open>The engine's data\<close>

text \<open>
  The fields of a point, of a trajectory entry and of \<open>this.data\<close>. A field whose name
  would clash with another record's or with a constant of HOL carries a prefix. Of
  \<open>this.data\<close> the fields \<open>floors\<close>, \<open>duration\<close>, \<open>startTime\<close> and \<open>endTime\<close> are left
  out: no method modelled here reads or writes them. A field that only ever holds a number
  (the constructor and \<open>addPoint\<close> are the only writers) has type \<open>num\<close>; a field that
  holds a caller's argument has type \<open>jsval\<close>.
\<close>

record Sample =
  sx :: jsval
  sy :: jsval
  sz :: jsval
  stimestamp :: jsval
  magnitude :: num

record TrajectoryEntry =
  t_floor :: num
  t_timestamp :: jsval
  t_duration :: num

record Session =
  points :: "Sample list"
  currentFloor :: num
  trajectory :: "TrajectoryEntry list"

definition FLOOR_HEIGHT :: num where "FLOOR_HEIGHT = Fin 3"
definition CAR_WIDTH :: num where "CAR_WIDTH = Fin (3 / 2)"
definition CAR_DEPTH :: num where "CAR_DEPTH = Fin (3 / 2)"
definition VERTICAL_THRESHOLD :: num where "VERTICAL_THRESHOLD = Fin (1 / 2)"
definition FLOOR_TRANSITION_TIME :: num where "FLOOR_TRANSITION_TIME = Fin 500"

text \<open>The constructor, and \<open>reset\<close>.\<close>

definition new_session :: Session where
  "new_session = \<lparr>points = [], currentFloor = Fin 0, trajectory = []\<rparr>"

section \<open>detectFloor and addPoint\<close>

definition detectFloor :: "Session \<Rightarrow> jsval \<Rightarrow> num" where
  "detectFloor s z =
     (if num_lt (Math_abs (to_number z)) VERTICAL_THRESHOLD then currentFloor s
      else
        let verticalDistance =
              num_div (num_mul (Math_abs (to_number z)) FLOOR_TRANSITION_TIME) (Fin 1000);
            floorChange = Math_round (num_div verticalDistance FLOOR_HEIGHT)
        in if num_gt (to_number z) (Fin 0)
           then Math_min (num_add (currentFloor s) floorChange) (Fin 12)
           else Math_max (num_sub (currentFloor s) floorChange) (Fin 0))"

text \<open>
  \<open>addPoint\<close> returns the point and the session after the call. The point's fields are
  the coerced arguments; the magnitude and the floor detection take the arguments as they
  were passed.
\<close>

definition addPoint :: "Session \<Rightarrow> jsval \<Rightarrow> jsval \<Rightarrow> jsval \<Rightarrow> jsval \<Rightarrow> Sample \<times> Session" where
  "addPoint s x y z timestamp =
     (let point = \<lparr>sx = js_or x (Num (Fin 0)),
                   sy = js_or y (Num (Fin 0)),
                   sz = js_or z (Num (Fin 0)),
                   stimestamp = timestamp,
                   magnitude = Math_sqrt
                     (num_add (num_add (num_mul (to_number x) (to_number x))
                                       (num_mul (to_number y) (to_number y)))
                              (num_mul (to_number z) (to_number z)))\<rparr>;
          s1 = s\<lparr>points := points s @ [point]\<rparr>;
          detectedFloor = detectFloor s1 z;
          s2 = (if \<not> strict_eq (Num detectedFloor) (Num (currentFloor s1))
                then s1\<lparr>currentFloor := detectedFloor,
                        trajectory := trajectory s1 @
                          [\<lparr>t_floor = detectedFloor, t_timestamp = timestamp,
                            t_duration = Fin 0\<rparr>]\<rparr>
                else s1)
      in (point, s2))"

text \<open>A call, as its four arguments; a run of calls from a session, keeping the session.\<close>

type_synonym call = "jsval \<times> jsval \<times> jsval \<times> jsval"

fun run :: "Session \<Rightarrow> call list \<Rightarrow> Session" where
  "run s [] = s"
| "run s ((x, y, z, t) # cs) = run (snd (addPoint s x y z t)) cs"

section \<open>The derived views\<close>

text \<open>
  A point of a floor's heat map: the point's own fields (the spread \<open>...p\<close>) and three more.
\<close>

record PositionedSample = Sample +
  normalizedX :: num
  normalizedY :: num
  intensity :: num

definition getFloorHeatmap :: "Session \<Rightarrow> jsval \<Rightarrow> PositionedSample list" where
  "getFloorHeatmap s floor' =
     (let floorPoints = filter (\<lambda>p. strict_eq (Num (detectFloor s (sz p))) floor') (points s)
      in if length floorPoints = 0 then []
         else
           let maxAccel = Math_max_list
                 (map (\<lambda>p. Math_max (Math_abs (to_number (sx p))) (Math_abs (to_number (sy p))))
                      floorPoints)
           in map (\<lambda>p. \<lparr>sx = sx p, sy = sy p, sz = sz p, stimestamp = stimestamp p,
                         magnitude = magnitude p,
                         normalizedX = num_add (num_mul (num_div (to_number (sx p)) maxAccel)
                                                        (num_div CAR_WIDTH (Fin 2)))
                                               (num_div CAR_WIDTH (Fin 2)),
                         normalizedY = num_add (num_mul (num_div (to_number (sy p)) maxAccel)
                                                        (num_div CAR_DEPTH (Fin 2)))
                                               (num_div CAR_DEPTH (Fin 2)),
                         intensity = Math_min (num_div (magnitude p) (Fin 2)) (Fin 1)\<rparr>)
                  floorPoints)"

text \<open>
  \<open>getFloorName\<close>. The text a number has in a template literal is the host's; it is the
  parameter \<open>ToString\<close>.
\<close>

definition getFloorName :: "(num \<Rightarrow> string) \<Rightarrow> num \<Rightarrow> string" where
  "getFloorName ToString floor' =
     (if strict_eq (Num floor') (Num (Fin 0)) then ''Car Top (Machine Room)''
      else if num_ge floor' (Fin 1) \<and> num_le floor' (Fin 12) then ''Floor '' @ ToString floor'
      else ''Unknown'')"

text \<open>
  An entry of the vertical heat map. \<open>fs_floor\<close> is the loop counter \<open>i\<close>, \<open>visits\<close> a
  counter, \<open>lastVisit\<close> is \<open>None\<close> for \<open>null\<close>.
\<close>

record FloorStats =
  fs_floor :: nat
  floorName :: string
  fs_duration :: num
  visits :: nat
  lastVisit :: "jsval option"

text \<open>
  \<open>floorVisits\<close> is an object whose keys are the integers 0 to 12; it is the list of its
  values in the order of the keys, which is the order \<open>Object.values\<close> gives them in.
  \<open>floorVisits[v]\<close> finds an entry when \<open>v\<close> is one of these integers, and is
  \<open>undefined\<close> for every other number.
\<close>

definition floor_key :: "num \<Rightarrow> nat option" where
  "floor_key v =
     (case v of
        Fin r \<Rightarrow> if r = of_int \<lfloor>r\<rfloor> \<and> 0 \<le> r \<and> r \<le> 12 then Some (nat \<lfloor>r\<rfloor>) else None
      | _ \<Rightarrow> None)"

definition init_floorVisits :: "(num \<Rightarrow> string) \<Rightarrow> FloorStats list" where
  "init_floorVisits ToString =
     map (\<lambda>i. \<lparr>fs_floor = i, floorName = getFloorName ToString (Fin (real i)),
               fs_duration = Fin 0, visits = 0, lastVisit = None\<rparr>) [0..<13]"

text \<open>The body of the \<open>forEach\<close> over the trajectory, at one index.\<close>

definition count_visit :: "TrajectoryEntry list \<Rightarrow> FloorStats list \<Rightarrow> nat \<Rightarrow> FloorStats list" where
  "count_visit traj floorVisits index =
     (let visit = traj ! index
      in case floor_key (t_floor visit) of
           None \<Rightarrow> floorVisits
         | Some k \<Rightarrow>
             let e = floorVisits ! k;
                 e1 = e\<lparr>visits := visits e + 1, lastVisit := Some (t_timestamp visit)\<rparr>;
                 e2 = (if index < length traj - 1
                       then let nextVisit = traj ! (index + 1)
                            in e1\<lparr>fs_duration := num_add (fs_duration e1)
                                 (num_div (num_sub (to_number (t_timestamp nextVisit))
                                                   (to_number (t_timestamp visit)))
                                          (Fin 1000))\<rparr>
                       else e1)
             in floorVisits[k := e2])"

definition getVerticalHeatmap :: "(num \<Rightarrow> string) \<Rightarrow> Session \<Rightarrow> FloorStats list" where
  "getVerticalHeatmap ToString s =
     foldl (count_visit (trajectory s)) (init_floorVisits ToString)
       [0..<length (trajectory s)]"

text \<open>
  \<open>Array.prototype.sort\<close> with a comparator is a stable sort: an element stays in front of
  a later one unless the comparator is positive on the pair. It is an insertion sort here.
\<close>

fun insert_sorted :: "('a \<Rightarrow> 'a \<Rightarrow> num) \<Rightarrow> 'a \<Rightarrow> 'a list \<Rightarrow> 'a list" where
  "insert_sorted cmp a [] = [a]"
| "insert_sorted cmp a (b # bs) =
     (if num_gt (cmp a b) (Fin 0) then b # insert_sorted cmp a bs else a # b # bs)"

definition Array_sort :: "('a \<Rightarrow> 'a \<Rightarrow> num) \<Rightarrow> 'a list \<Rightarrow> 'a list" where
  "Array_sort cmp xs = foldr (insert_sorted cmp) xs []"

definition getWorkflowAnalysis :: "(num \<Rightarrow> string) \<Rightarrow> Session \<Rightarrow> FloorStats list" where
  "getWorkflowAnalysis ToString s =
     Array_sort (\<lambda>a b. num_sub (fs_duration b) (fs_duration a))
       (filter (\<lambda>f. num_gt (fs_duration f) (Fin 0)) (getVerticalHeatmap ToString s))"

text \<open>
  A step of the path. The text of the time is the host's:
  \<open>new Date(t).toLocaleTimeString()\<close> is the parameter \<open>toLocaleTimeString\<close>.
\<close>

record PathStep =
  order :: nat
  p_floor :: num
  p_floorName :: string
  time :: string
  p_duration :: num

definition getPath :: "(num \<Rightarrow> string) \<Rightarrow> (jsval \<Rightarrow> string) \<Rightarrow> Session \<Rightarrow> PathStep list" where
  "getPath ToString toLocaleTimeString s =
     map (\<lambda>index.
            let visit = trajectory s ! index;
                duration = (if index + 1 < length (trajectory s)
                            then let nextVisit = trajectory s ! (index + 1)
                                 in num_div (num_sub (to_number (t_timestamp nextVisit))
                                                     (to_number (t_timestamp visit)))
                                            (Fin 1000)
                            else Fin 0)
            in \<lparr>order = index + 1,
                p_floor = t_floor visit,
                p_floorName = getFloorName ToString (t_floor visit),
                time = toLocaleTimeString (t_timestamp visit),
                p_duration = Math_round duration\<rparr>)
         [0..<length (trajectory s)]"

section \<open>Predicates of the statements\<close>

text \<open>A floor: an integer from 0 to 12.\<close>

definition is_floor :: "num \<Rightarrow> bool" where
  "is_floor v = (case v of Fin r \<Rightarrow> r = of_int \<lfloor>r\<rfloor> \<and> 0 \<le> r \<and> r \<le> 12 | _ \<Rightarrow> False)"

text \<open>The number of floors \<open>detectFloor\<close> moves by, for a finite \<open>z\<close> at or beyond the threshold.\<close>

definition floor_change :: "real \<Rightarrow> real" where
  "floor_change r = of_int \<lfloor>\<bar>r\<bar> * 500 / 1000 / 3 + 1 / 2\<rfloor>"

text \<open>The current floor and every floor of the trajectory are floors.\<close>

definition floors_ok :: "Session \<Rightarrow> bool" where
  "floors_ok s = (is_floor (currentFloor s) \<and> list_all (\<lambda>e. is_floor (t_floor e)) (trajectory s))"

text \<open>The last entry of a trajectory that is not empty holds the current floor.\<close>

definition last_is_current :: "Session \<Rightarrow> bool" where
  "last_is_current s = (trajectory s = [] \<or> t_floor (last (trajectory s)) = currentFloor s)"

text \<open>A call whose \<open>z\<close> is a number other than NaN.\<close>

definition numeric_z :: "call \<Rightarrow> bool" where
  "numeric_z c = (case c of (x, y, z, t) \<Rightarrow> to_number z \<noteq> NaN)"

text \<open>No two consecutive entries of the trajectory hold the same floor.\<close>

definition no_repeat :: "Session \<Rightarrow> bool" where
  "no_repeat s = successively (\<lambda>a b. t_floor a \<noteq> t_floor b) (trajectory s)"

text \<open>No two consecutive entries of the trajectory hold floors that \<open>===\<close> equates.\<close>

definition no_strict_repeat :: "Session \<Rightarrow> bool" where
  "no_strict_repeat s =
     successively (\<lambda>a b. \<not> strict_eq (Num (t_floor a)) (Num (t_floor b))) (trajectory s)"

text \<open>What the current floor can be after calls of \<open>addPoint\<close> on a new session: a floor or NaN.\<close>

definition reachable_floor :: "Session \<Rightarrow> bool" where
  "reachable_floor s = (currentFloor s = NaN \<or> is_floor (currentFloor s))"

text \<open>An argument of \<open>getFloorHeatmap\<close> that is a floor.\<close>

definition in_floor_range :: "jsval \<Rightarrow> bool" where
  "in_floor_range v = (case v of Num n \<Rightarrow> is_floor n | Undefined \<Rightarrow> False)"

text \<open>The comparator of \<open>getWorkflowAnalysis\<close>.\<close>

definition by_duration :: "FloorStats \<Rightarrow> FloorStats \<Rightarrow> num" where
  "by_duration a b = num_sub (fs_duration b) (fs_duration a)"

text \<open>A host for the evaluations at concrete inputs: the texts it produces are fixed.\<close>

definition example_ToString :: "num \<Rightarrow> string" where
  "example_ToString n = ''n''"

definition example_time :: "jsval \<Rightarrow> string" where
  "example_time t = ''t''"

section \<open>Facts about numbers\<close>

lemmas engine_consts = FLOOR_HEIGHT_def CAR_WIDTH_def CAR_DEPTH_def VERTICAL_THRESHOLD_def
  FLOOR_TRANSITION_TIME_def

lemmas eval_defs = detectFloor_def addPoint_def new_session_def js_or_def num_sub_def num_gt_def
  num_ge_def signed_inf_def Let_def engine_consts

lemma num_add_NaN_right: "num_add a NaN = NaN"
  by (cases a) simp_all

lemma Math_min_NaN_right: "Math_min a NaN = NaN"
  by (cases a) simp_all

lemma Math_max_NaN_right: "Math_max a NaN = NaN"
  by (cases a) simp_all

lemma strict_eq_Num: "strict_eq (Num a) (Num b) = (a = b \<and> a \<noteq> NaN)"
  by (cases a; cases b) auto

lemma num_ge_Fin_cases:
  assumes "num_ge n (Fin a)"
  shows "n = PosInf \<or> (\<exists>r. n = Fin r \<and> a \<le> r)"
  using assms by (cases n) (auto simp: num_ge_def)

lemma num_le_Fin_cases:
  assumes "num_le n (Fin a)"
  shows "n = NegInf \<or> (\<exists>r. n = Fin r \<and> r \<le> a)"
  using assms by (cases n) auto

lemma to_number_eq: "to_number z = n \<Longrightarrow> n \<noteq> NaN \<Longrightarrow> z = Num n"
  by (cases z) auto

lemma js_or_number: "n \<noteq> NaN \<Longrightarrow> to_number (js_or (Num n) (Num (Fin 0))) = n"
  by (cases n) (auto simp: js_or_def)

lemma num_gt_not_NaN: "num_gt a b \<Longrightarrow> a \<noteq> NaN"
  by (cases a; cases b) (auto simp: num_gt_def)

lemma num_lt_asym: "num_lt a b \<Longrightarrow> \<not> num_lt b a"
  by (cases a; cases b) auto

lemma num_lt_cotrans: "num_lt a c \<Longrightarrow> b \<noteq> NaN \<Longrightarrow> num_lt a b \<or> num_lt b c"
  by (cases a; cases b; cases c) auto

lemma positive_difference_differs:
  assumes "num_gt (num_sub q p) (Fin 0)"
  shows "p \<noteq> q"
  using assms by (cases p; cases q) (auto simp: num_gt_def num_sub_def)

lemma positive_difference_iff:
  assumes "p \<noteq> NaN" and "q \<noteq> NaN"
  shows "num_gt (num_sub q p) (Fin 0) = num_lt p q"
  using assms by (cases p; cases q) (auto simp: num_gt_def num_sub_def)

section \<open>Facts about detectFloor\<close>

text \<open>
  \<open>detectFloor\<close> reads the current floor and nothing else of the session. At a current
  floor that is a finite number its result is given in closed form; at NaN, and for a \<open>z\<close>
  that is \<open>undefined\<close> or NaN, its result is NaN.
\<close>

lemma detectFloor_cong: "currentFloor s = currentFloor s' \<Longrightarrow> detectFloor s z = detectFloor s' z"
  by (simp add: detectFloor_def Let_def)

lemma detectFloor_Fin:
  assumes "currentFloor s = Fin c"
  shows "detectFloor s (Num (Fin r)) =
    (if \<bar>r\<bar> < 1 / 2 then Fin c
     else if 0 < r then Fin (if 12 < c + floor_change r then 12 else c + floor_change r)
     else Fin (if c - floor_change r < 0 then 0 else c - floor_change r))"
  using assms
  by (simp add: detectFloor_def engine_consts num_gt_def num_sub_def floor_change_def Let_def)

lemma detectFloor_PosInf:
  assumes "currentFloor s = Fin c"
  shows "detectFloor s (Num PosInf) = Fin 12"
  using assms
  by (simp add: detectFloor_def engine_consts num_gt_def num_sub_def signed_inf_def Let_def)

lemma detectFloor_NegInf:
  assumes "currentFloor s = Fin c"
  shows "detectFloor s (Num NegInf) = Fin 0"
  using assms
  by (simp add: detectFloor_def engine_consts num_gt_def num_sub_def signed_inf_def Let_def)

lemma detectFloor_of_NaN:
  assumes "to_number z = NaN"
  shows "detectFloor s z = NaN"
  using assms
  by (simp add: detectFloor_def engine_consts num_gt_def num_sub_def num_add_NaN_right Let_def)

lemma detectFloor_at_NaN:
  assumes "currentFloor s = NaN"
  shows "detectFloor s z = NaN"
  using assms
  by (simp add: detectFloor_def engine_consts num_gt_def num_sub_def Let_def)

lemma detectFloor_below_threshold:
  "num_lt (Math_abs (to_number z)) (Fin (1 / 2)) \<Longrightarrow> detectFloor s z = currentFloor s"
  by (simp add: detectFloor_def engine_consts)

lemma floor_change_nonneg: "0 \<le> floor_change r"
  by (simp add: floor_change_def)

lemma floor_change_int: "floor_change r = of_int \<lfloor>floor_change r\<rfloor>"
  by (simp add: floor_change_def)

lemma floor_change_mono: "\<bar>a\<bar> \<le> \<bar>b\<bar> \<Longrightarrow> floor_change a \<le> floor_change b"
  unfolding floor_change_def by (intro of_int_le_iff[THEN iffD2] floor_mono) simp

lemma is_floor_not_NaN: "is_floor v \<Longrightarrow> v \<noteq> NaN"
  by (auto simp: is_floor_def)

lemma is_floor_detectFloor:
  assumes "is_floor (currentFloor s)" and "to_number z \<noteq> NaN"
  shows "is_floor (detectFloor s z)"
proof -
  from assms(1) obtain c where c: "currentFloor s = Fin c" "c = of_int \<lfloor>c\<rfloor>" "0 \<le> c" "c \<le> 12"
    by (auto simp: is_floor_def split: num.splits)
  from assms(2) obtain n where z: "z = Num n" "n \<noteq> NaN"
    by (cases z) auto
  show ?thesis
  proof (cases n)
    case NaN
    with z show ?thesis by simp
  next
    case NegInf
    with z c show ?thesis by (simp add: detectFloor_NegInf is_floor_def)
  next
    case PosInf
    with z c show ?thesis by (simp add: detectFloor_PosInf is_floor_def)
  next
    case (Fin r)
    have up: "c + floor_change r = of_int \<lfloor>c + floor_change r\<rfloor>"
      using c(2) floor_change_int[of r] by (metis floor_of_int of_int_add)
    have down: "c - floor_change r = of_int \<lfloor>c - floor_change r\<rfloor>"
      using c(2) floor_change_int[of r] by (metis floor_of_int of_int_diff)
    from Fin z c up down floor_change_nonneg[of r] show ?thesis
      by (auto simp add: detectFloor_Fin[OF c(1)] is_floor_def)
  qed
qed

lemma detectFloor_up_le_12:
  assumes "currentFloor s = Fin c" and "num_ge (to_number z) (Fin (1 / 2))"
  shows "num_le (detectFloor s z) (Fin 12)"
proof -
  from num_ge_Fin_cases[OF assms(2)] consider "z = Num PosInf" | r where "z = Num (Fin r)" "1 / 2 \<le> r"
    by (auto dest: to_number_eq)
  then show ?thesis
  proof cases
    case 1
    with assms(1) show ?thesis by (simp add: detectFloor_PosInf)
  next
    case 2
    with assms(1) show ?thesis by (simp add: detectFloor_Fin)
  qed
qed

lemma detectFloor_down_ge_0:
  assumes "currentFloor s = Fin c" and "num_le (to_number z) (Fin (- 1 / 2))"
  shows "num_ge (detectFloor s z) (Fin 0)"
proof -
  from num_le_Fin_cases[OF assms(2)] consider "z = Num NegInf" | r where "z = Num (Fin r)" "r \<le> - 1 / 2"
    by (auto dest: to_number_eq)
  then show ?thesis
  proof cases
    case 1
    with assms(1) show ?thesis by (simp add: detectFloor_NegInf num_ge_def)
  next
    case 2
    with assms(1) show ?thesis by (simp add: detectFloor_Fin num_ge_def)
  qed
qed

lemma detectFloor_up_mono:
  assumes "currentFloor s = Fin c" and "num_ge (to_number z1) (Fin (1 / 2))"
    and "num_le (to_number z1) (to_number z2)"
  shows "num_le (detectFloor s z1) (detectFloor s z2)"
proof -
  from num_ge_Fin_cases[OF assms(2)]
  consider "z1 = Num PosInf" | r1 where "z1 = Num (Fin r1)" "1 / 2 \<le> r1"
    by (auto dest: to_number_eq)
  then show ?thesis
  proof cases
    case 1
    with assms(3) have "z2 = Num PosInf"
      by (cases z2; cases "to_number z2") auto
    with 1 assms(1) show ?thesis by (simp add: detectFloor_PosInf)
  next
    case 2
    with assms(3) consider "z2 = Num PosInf" | r2 where "z2 = Num (Fin r2)" "r1 \<le> r2"
      by (cases z2; cases "to_number z2") auto
    then show ?thesis
    proof cases
      case 1
      with 2 assms(1) show ?thesis by (simp add: detectFloor_PosInf detectFloor_Fin)
    next
      case (2 r2)
      with \<open>1 / 2 \<le> r1\<close> have "floor_change r1 \<le> floor_change r2"
        by (intro floor_change_mono) simp
      with 2 \<open>z1 = Num (Fin r1)\<close> \<open>1 / 2 \<le> r1\<close> assms(1) show ?thesis
        by (simp add: detectFloor_Fin)
    qed
  qed
qed

section \<open>Facts about addPoint and runs of calls\<close>

lemma points_addPoint:
  "points (snd (addPoint s x y z t)) = points s @ [fst (addPoint s x y z t)]"
  by (simp add: addPoint_def Let_def)

lemma currentFloor_addPoint:
  "currentFloor (snd (addPoint s x y z t)) = detectFloor s z"
  by (simp add: addPoint_def Let_def strict_eq_Num detectFloor_cong[of "s\<lparr>points := p\<rparr>" s for p])

lemma trajectory_addPoint:
  "trajectory (snd (addPoint s x y z t)) =
     (if strict_eq (Num (detectFloor s z)) (Num (currentFloor s)) then trajectory s
      else trajectory s @ [\<lparr>t_floor = detectFloor s z, t_timestamp = t, t_duration = Fin 0\<rparr>])"
  by (simp add: addPoint_def Let_def detectFloor_cong[of "s\<lparr>points := p\<rparr>" s for p])

lemma points_run_extends: "\<exists>ps. points (run s cs) = points s @ ps"
proof (induction cs arbitrary: s)
  case Nil
  then show ?case by simp
next
  case (Cons c cs)
  obtain x y z t where c: "c = (x, y, z, t)" by (cases c)
  from Cons.IH[of "snd (addPoint s x y z t)"] c show ?case
    by (auto simp: points_addPoint)
qed

text \<open>
  As long as every \<open>z\<close> passed is a number other than NaN, the current floor and the
  floors of the trajectory stay floors.
\<close>

lemma floors_ok_new: "floors_ok new_session"
  by (simp add: floors_ok_def new_session_def is_floor_def)

lemma floors_ok_addPoint:
  assumes "floors_ok s" and "to_number z \<noteq> NaN"
  shows "floors_ok (snd (addPoint s x y z t))"
  using assms is_floor_detectFloor[of s z]
  by (simp add: floors_ok_def currentFloor_addPoint trajectory_addPoint)

lemma floors_ok_run:
  assumes "floors_ok s" and "list_all numeric_z cs"
  shows "floors_ok (run s cs)"
  using assms
proof (induction cs arbitrary: s)
  case Nil
  then show ?case by simp
next
  case (Cons c cs)
  obtain x y z t where c: "c = (x, y, z, t)" by (cases c)
  with Cons.prems have "floors_ok (snd (addPoint s x y z t))"
    by (simp add: floors_ok_addPoint numeric_z_def)
  with Cons c show ?case by simp
qed

text \<open>
  Whatever is passed, the last entry holds the current floor, and no entry is followed by
  one whose floor \<open>===\<close> equates with its own. When every \<open>z\<close> is a number other than
  NaN, no entry is followed by one with the same floor.
\<close>

lemma last_is_current_addPoint:
  assumes "last_is_current s"
  shows "last_is_current (snd (addPoint s x y z t))"
  using assms
  by (auto simp add: last_is_current_def currentFloor_addPoint trajectory_addPoint strict_eq_Num)

lemma last_is_current_run: "last_is_current s \<Longrightarrow> last_is_current (run s cs)"
proof (induction cs arbitrary: s)
  case Nil
  then show ?case by simp
next
  case (Cons c cs)
  obtain x y z t where c: "c = (x, y, z, t)" by (cases c)
  from Cons.prems have "last_is_current (snd (addPoint s x y z t))"
    by (rule last_is_current_addPoint)
  with Cons c show ?case by simp
qed

lemma no_strict_repeat_addPoint:
  assumes "no_strict_repeat s" and "last_is_current s"
  shows "no_strict_repeat (snd (addPoint s x y z t))"
  using assms
  by (auto simp add: no_strict_repeat_def last_is_current_def trajectory_addPoint
      successively_append_iff strict_eq_Num)

lemma no_strict_repeat_run:
  assumes "no_strict_repeat s" and "last_is_current s"
  shows "no_strict_repeat (run s cs)"
  using assms
proof (induction cs arbitrary: s)
  case Nil
  then show ?case by simp
next
  case (Cons c cs)
  obtain x y z t where c: "c = (x, y, z, t)" by (cases c)
  have "no_strict_repeat (snd (addPoint s x y z t))" "last_is_current (snd (addPoint s x y z t))"
    using Cons.prems by (simp_all add: no_strict_repeat_addPoint last_is_current_addPoint)
  with Cons.IH c show ?case by simp
qed

lemma no_repeat_numeric:
  assumes "list_all numeric_z cs"
  shows "no_repeat (run new_session cs)"
proof -
  have ok: "floors_ok (run new_session cs)"
    using floors_ok_new assms by (rule floors_ok_run)
  have "no_strict_repeat (run new_session cs)"
    by (rule no_strict_repeat_run) (simp_all add: no_strict_repeat_def last_is_current_def new_session_def)
  then have "successively (\<lambda>a b. \<not> strict_eq (Num (t_floor a)) (Num (t_floor b)))
      (trajectory (run new_session cs))"
    by (simp add: no_strict_repeat_def)
  then have "successively (\<lambda>a b. t_floor a \<noteq> t_floor b) (trajectory (run new_session cs))"
  proof (rule successively_mono)
    fix a b
    assume "a \<in> set (trajectory (run new_session cs))" "b \<in> set (trajectory (run new_session cs))"
      and "\<not> strict_eq (Num (t_floor a)) (Num (t_floor b))"
    with ok show "t_floor a \<noteq> t_floor b"
      by (auto simp: floors_ok_def list_all_iff strict_eq_Num dest: is_floor_not_NaN)
  qed
  then show ?thesis by (simp add: no_repeat_def)
qed

text \<open>
  Whatever is passed, the current floor is a floor or NaN, and so is every floor that
  \<open>detectFloor\<close> then returns.
\<close>

lemma reachable_floor_new: "reachable_floor new_session"
  by (simp add: reachable_floor_def new_session_def is_floor_def)

lemma reachable_floor_addPoint:
  assumes "reachable_floor s"
  shows "reachable_floor (snd (addPoint s x y z t))"
proof (cases "currentFloor s = NaN \<or> to_number z = NaN")
  case True
  then have "detectFloor s z = NaN"
    by (auto simp: detectFloor_at_NaN detectFloor_of_NaN)
  then show ?thesis by (simp add: reachable_floor_def currentFloor_addPoint)
next
  case False
  with assms have "is_floor (detectFloor s z)"
    by (auto simp: reachable_floor_def intro: is_floor_detectFloor)
  then show ?thesis by (simp add: reachable_floor_def currentFloor_addPoint)
qed

lemma reachable_floor_run: "reachable_floor s \<Longrightarrow> reachable_floor (run s cs)"
proof (induction cs arbitrary: s)
  case Nil
  then show ?case by simp
next
  case (Cons c cs)
  obtain x y z t where c: "c = (x, y, z, t)" by (cases c)
  from Cons.prems have "reachable_floor (snd (addPoint s x y z t))"
    by (rule reachable_floor_addPoint)
  with Cons c show ?case by simp
qed

lemma reachable_detectFloor:
  assumes "reachable_floor s"
  shows "detectFloor s z = NaN \<or> is_floor (detectFloor s z)"
proof (cases "currentFloor s = NaN \<or> to_number z = NaN")
  case True
  then show ?thesis by (auto simp: detectFloor_at_NaN detectFloor_of_NaN)
next
  case False
  with assms show ?thesis
    by (auto simp: reachable_floor_def intro: is_floor_detectFloor)
qed

lemma no_match_outside_range:
  assumes "reachable_floor s" and "\<not> in_floor_range fl"
  shows "\<not> strict_eq (Num (detectFloor s z)) fl"
proof (cases fl)
  case Undefined
  then show ?thesis by (cases "detectFloor s z") simp_all
next
  case (Num n)
  with assms(2) have "\<not> is_floor n" by (simp add: in_floor_range_def)
  with reachable_detectFloor[OF assms(1), of z] Num show ?thesis
    by (auto simp: strict_eq_Num)
qed

text \<open>
  A call below the threshold at a current floor other than NaN appends the point and
  changes nothing else. A call whose \<open>x\<close>, \<open>y\<close> and \<open>z\<close> are numbers other than NaN
  stores them, and the magnitude is the root of the sum of their squares.
\<close>

lemma addPoint_below_threshold:
  assumes "num_lt (Math_abs (to_number z)) (Fin (1 / 2))" and "currentFloor s \<noteq> NaN"
  shows "snd (addPoint s x y z t) = s\<lparr>points := points s @ [fst (addPoint s x y z t)]\<rparr>"
  using assms
  by (simp add: addPoint_def Let_def strict_eq_Num detectFloor_def engine_consts)

lemma addPoint_sample_numbers:
  assumes "to_number x \<noteq> NaN" "to_number y \<noteq> NaN" "to_number z \<noteq> NaN"
  shows "to_number (sx (fst (addPoint s x y z t))) = to_number x \<and>
         to_number (sy (fst (addPoint s x y z t))) = to_number y \<and>
         to_number (sz (fst (addPoint s x y z t))) = to_number z \<and>
         magnitude (fst (addPoint s x y z t)) =
           Math_sqrt (num_add (num_add
             (num_mul (to_number (sx (fst (addPoint s x y z t)))) (to_number (sx (fst (addPoint s x y z t)))))
             (num_mul (to_number (sy (fst (addPoint s x y z t)))) (to_number (sy (fst (addPoint s x y z t))))))
             (num_mul (to_number (sz (fst (addPoint s x y z t)))) (to_number (sz (fst (addPoint s x y z t))))))"
proof -
  from assms obtain a b c where "x = Num a" "a \<noteq> NaN" "y = Num b" "b \<noteq> NaN" "z = Num c" "c \<noteq> NaN"
    by (cases x; cases y; cases z) auto
  then show ?thesis
    by (simp add: addPoint_def Let_def js_or_number)
qed

section \<open>The claims\<close>

subsection \<open>C1: floors stay in range\<close>

text \<open>
  Claim C1: after any sequence of \<open>addPoint\<close> calls, also calls whose \<open>x\<close>, \<open>y\<close> or
  \<open>z\<close> is missing, the current floor and the floor of every trajectory entry are integers
  from 0 to 12.

  The code at a missing \<open>z\<close>: on a new session, \<open>addPoint(0, 0, undefined, 1000)\<close> stores
  \<open>z = 0\<close> in the point, but passes \<open>undefined\<close> to \<open>detectFloor\<close>; the current floor
  becomes NaN, and the trajectory gets an entry whose floor is NaN, which is not a floor.
  A \<open>z\<close> that is the number NaN does the same. (\<open>floors_ok_run\<close> above is the claim
  for calls whose \<open>z\<close> is a number other than NaN.)
\<close>

theorem addPoint_undefined_z_floor_NaN:
  "sz (fst (addPoint new_session (Num (Fin 0)) (Num (Fin 0)) Undefined (Num (Fin 1000)))) = Num (Fin 0) \<and>
   currentFloor (snd (addPoint new_session (Num (Fin 0)) (Num (Fin 0)) Undefined (Num (Fin 1000)))) = NaN \<and>
   map t_floor (trajectory
     (snd (addPoint new_session (Num (Fin 0)) (Num (Fin 0)) Undefined (Num (Fin 1000))))) = [NaN] \<and>
   sz (fst (addPoint new_session (Num (Fin 0)) (Num (Fin 0)) (Num NaN) (Num (Fin 1000)))) = Num (Fin 0) \<and>
   currentFloor (snd (addPoint new_session (Num (Fin 0)) (Num (Fin 0)) (Num NaN) (Num (Fin 1000)))) = NaN \<and>
   \<not> is_floor NaN"
  by (simp add: eval_defs is_floor_def)

subsection \<open>C2: no floor twice in a row\<close>

text \<open>
  Claim C2: after any sequence of \<open>addPoint\<close> calls, the trajectory never contains two
  consecutive entries with the same floor value.

  The code after a missing \<open>z\<close>: the current floor is NaN, \<open>detectedFloor !== currentFloor\<close>
  holds at every later call, since NaN differs from itself, and every later call appends an
  entry whose floor is NaN. After \<open>addPoint(0, 0, undefined, 1000)\<close> and
  \<open>addPoint(0, 0, 0, 2000)\<close> on a new session the floors of the trajectory are NaN, NaN.
  (\<open>no_repeat_numeric\<close> above is the claim for calls whose \<open>z\<close> is a number other than
  NaN.)
\<close>

theorem trajectory_repeats_NaN_floor:
  "map t_floor (trajectory (run new_session
     [(Num (Fin 0), Num (Fin 0), Undefined, Num (Fin 1000)),
      (Num (Fin 0), Num (Fin 0), Num (Fin 0), Num (Fin 2000))])) = [NaN, NaN]"
  by (simp add: eval_defs)

subsection \<open>C3: below the threshold nothing moves\<close>

text \<open>
  Claim C3: for every \<open>z\<close> with \<open>|z| < 0.5\<close>, \<open>detectFloor(z)\<close> returns the current floor,
  and an \<open>addPoint\<close> call with such a \<open>z\<close> appends the point and leaves the trajectory and
  the current floor unchanged.

  The code after a missing \<open>z\<close>: the session that \<open>addPoint(0, 0, undefined, 1000)\<close> leaves
  has one trajectory entry; \<open>addPoint(0, 0, 0, 2000)\<close> on it is a call with \<open>|z| < 0.5\<close>,
  and it appends a second one. (\<open>detectFloor_below_threshold\<close> above is the first half of the
  claim, \<open>addPoint_below_threshold\<close> the second half at a current floor other than NaN.)
\<close>

theorem below_threshold_appends_at_NaN_floor:
  "num_lt (Math_abs (to_number (Num (Fin 0)))) (Fin (1 / 2)) \<and>
   map t_timestamp (trajectory (run new_session
     [(Num (Fin 0), Num (Fin 0), Undefined, Num (Fin 1000))])) = [Num (Fin 1000)] \<and>
   map t_timestamp (trajectory (snd (addPoint
     (run new_session [(Num (Fin 0), Num (Fin 0), Undefined, Num (Fin 1000))])
     (Num (Fin 0)) (Num (Fin 0)) (Num (Fin 0)) (Num (Fin 2000))))) = [Num (Fin 1000), Num (Fin 2000)]"
  by (simp add: eval_defs)

subsection \<open>C4: the bounds and the monotonicity of detectFloor\<close>

text \<open>
  At a current floor that is a finite number, a floor or not, \<open>detectFloor(z)\<close> is at most
  12 for every \<open>z \<ge> 0.5\<close>, and does not decrease as such a \<open>z\<close> grows; and
  \<open>detectFloor(z)\<close> is at least 0 for every \<open>z \<le> -0.5\<close>. Here \<open>z\<close> may be infinite.
\<close>

lemma detectFloor_clamped_monotone:
  assumes "currentFloor s = Fin c"
  shows "(num_ge (to_number z) (Fin (1 / 2)) \<longrightarrow> num_le (detectFloor s z) (Fin 12)) \<and>
         (num_ge (to_number z1) (Fin (1 / 2)) \<and> num_le (to_number z1) (to_number z2) \<longrightarrow>
            num_le (detectFloor s z1) (detectFloor s z2)) \<and>
         (num_le (to_number z') (Fin (- 1 / 2)) \<longrightarrow> num_ge (detectFloor s z') (Fin 0))"
  using assms detectFloor_up_le_12 detectFloor_up_mono detectFloor_down_ge_0 by blast

text \<open>
  An instance: a new session, \<open>z = 3\<close>, then \<open>z\<close> from 3 to 9, then \<open>z = -3\<close>.
\<close>

lemma detectFloor_clamped_monotone_new_session:
  "currentFloor new_session = Fin 0 \<and>
   num_ge (to_number (Num (Fin 3))) (Fin (1 / 2)) \<and>
   num_le (detectFloor new_session (Num (Fin 3))) (Fin 12) \<and>
   num_le (to_number (Num (Fin 3))) (to_number (Num (Fin 9))) \<and>
   num_le (detectFloor new_session (Num (Fin 3))) (detectFloor new_session (Num (Fin 9))) \<and>
   num_le (to_number (Num (Fin (- 3)))) (Fin (- 1 / 2)) \<and>
   num_ge (detectFloor new_session (Num (Fin (- 3)))) (Fin 0)"
  using detectFloor_clamped_monotone [where s = new_session and c = 0 and z = "Num (Fin 3)"
      and ?z1.0 = "Num (Fin 3)" and ?z2.0 = "Num (Fin 9)" and z' = "Num (Fin (- 3))"]
  by (simp add: new_session_def num_ge_def)

text \<open>
  Claim C4: at every fixed current floor, \<open>detectFloor(z)\<close> is at most 12 for every
  \<open>z \<ge> 0.5\<close>, and does not decrease as such a \<open>z\<close> grows; and \<open>detectFloor(z)\<close> is at
  least 0 for every \<open>z \<le> -0.5\<close>.

  The code after a missing \<open>z\<close>: the session that \<open>addPoint(0, 0, undefined, 1000)\<close> leaves
  has the current floor NaN. There \<open>detectFloor(3)\<close>, \<open>detectFloor(9)\<close> and
  \<open>detectFloor(-3)\<close> are NaN: \<open>detectFloor(3) <= 12\<close> is false,
  \<open>detectFloor(3) <= detectFloor(9)\<close> is false, and \<open>detectFloor(-3) >= 0\<close> is false.
  (\<open>detectFloor_clamped_monotone\<close> above is the claim at a current floor that is a finite
  number.)
\<close>

theorem detectFloor_unordered_at_NaN_floor:
  "currentFloor (run new_session [(Num (Fin 0), Num (Fin 0), Undefined, Num (Fin 1000))]) = NaN \<and>
   num_ge (to_number (Num (Fin 3))) (Fin (1 / 2)) \<and>
   num_le (to_number (Num (Fin 3))) (to_number (Num (Fin 9))) \<and>
   num_le (to_number (Num (Fin (- 3)))) (Fin (- 1 / 2)) \<and>
   detectFloor (run new_session [(Num (Fin 0), Num (Fin 0), Undefined, Num (Fin 1000))])
     (Num (Fin 3)) = NaN \<and>
   detectFloor (run new_session [(Num (Fin 0), Num (Fin 0), Undefined, Num (Fin 1000))])
     (Num (Fin 9)) = NaN \<and>
   detectFloor (run new_session [(Num (Fin 0), Num (Fin 0), Undefined, Num (Fin 1000))])
     (Num (Fin (- 3))) = NaN \<and>
   \<not> num_le (detectFloor (run new_session [(Num (Fin 0), Num (Fin 0), Undefined, Num (Fin 1000))])
          (Num (Fin 3))) (Fin 12) \<and>
   \<not> num_le (detectFloor (run new_session [(Num (Fin 0), Num (Fin 0), Undefined, Num (Fin 1000))])
          (Num (Fin 3)))
        (detectFloor (run new_session [(Num (Fin 0), Num (Fin 0), Undefined, Num (Fin 1000))])
          (Num (Fin 9))) \<and>
   \<not> num_ge (detectFloor (run new_session [(Num (Fin 0), Num (Fin 0), Undefined, Num (Fin 1000))])
          (Num (Fin (- 3)))) (Fin 0)"
  by (simp add: eval_defs)

subsection \<open>C5: the stored point\<close>

text \<open>
  Claim C5: the point that \<open>addPoint(x, y, z, timestamp)\<close> returns and appends has the
  arguments as its \<open>x\<close>, \<open>y\<close> and \<open>z\<close>, a missing one being 0, and its magnitude is
  the root of the sum of the squares of these stored values.

  The code at a missing \<open>x\<close>: \<open>addPoint(undefined, 3, 4, 1000)\<close> stores 0, 3 and 4, whose
  magnitude is 5, and stores the magnitude NaN: the magnitude is computed from the arguments
  as they were passed. An \<open>x\<close> that is the number NaN does the same.
  (\<open>addPoint_sample_numbers\<close> above is the claim for arguments that are
  numbers other than NaN; by \<open>points_run_extends\<close> a stored point is never changed.)
\<close>

theorem addPoint_undefined_x_magnitude_NaN:
  "fst (addPoint new_session Undefined (Num (Fin 3)) (Num (Fin 4)) (Num (Fin 1000))) =
     \<lparr>sx = Num (Fin 0), sy = Num (Fin 3), sz = Num (Fin 4), stimestamp = Num (Fin 1000),
      magnitude = NaN\<rparr> \<and>
   fst (addPoint new_session (Num NaN) (Num (Fin 3)) (Num (Fin 4)) (Num (Fin 1000))) =
     \<lparr>sx = Num (Fin 0), sy = Num (Fin 3), sz = Num (Fin 4), stimestamp = Num (Fin 1000),
      magnitude = NaN\<rparr> \<and>
   Math_sqrt (num_add (num_add (num_mul (Fin 0) (Fin 0)) (num_mul (Fin 3) (Fin 3)))
                      (num_mul (Fin 4) (Fin 4))) = Fin 5"
  by (simp add: eval_defs real_sqrt_unique)

subsection \<open>C6: a heat map whose points are all at zero\<close>

text \<open>
  Claim C6: when the matched points of \<open>getFloorHeatmap(f)\<close> all have \<open>x = y = 0\<close>, every
  returned point has \<open>normalizedX = normalizedY = CAR_WIDTH / 2\<close>, that is 0.75.

  The code: after \<open>addPoint(0, 0, 0, 1000)\<close> on a new session, \<open>getFloorHeatmap(0)\<close>
  divides 0 by \<open>maxAccel = 0\<close> and returns the point with \<open>normalizedX\<close> and
  \<open>normalizedY\<close> NaN.
\<close>

theorem getFloorHeatmap_zero_maxAccel_NaN:
  "getFloorHeatmap (run new_session [(Num (Fin 0), Num (Fin 0), Num (Fin 0), Num (Fin 1000))])
     (Num (Fin 0)) =
     [\<lparr>sx = Num (Fin 0), sy = Num (Fin 0), sz = Num (Fin 0), stimestamp = Num (Fin 1000),
       magnitude = Fin 0, normalizedX = NaN, normalizedY = NaN, intensity = Fin 0\<rparr>] \<and>
   num_div CAR_WIDTH (Fin 2) = Fin (3 / 4)"
  by (simp add: eval_defs getFloorHeatmap_def Math_max_list_def)

subsection \<open>C7: the heat map of a floor filters on the current floor\<close>

text \<open>
  Claim C7: \<open>getFloorHeatmap(f)\<close> returns, in the order of insertion, exactly the recorded
  points \<open>p\<close> for which \<open>detectFloor(p.z)\<close>, computed at the current floor the session has
  now, is \<open>f\<close>; it returns the empty sequence when no point matches, and so for every
  \<open>f\<close> that is not one of the floors 0 to 12, whatever calls of \<open>addPoint\<close> the session has
  seen. (A returned point is the recorded point with three more fields; \<open>Sample.truncate\<close>
  drops them.)
\<close>

lemma Sample_rebuild:
  "\<lparr>sx = sx p, sy = sy p, sz = sz p, stimestamp = stimestamp p, magnitude = magnitude p\<rparr> =
     (p::Sample)"
  by (cases p) simp

lemma getFloorHeatmap_samples:
  "map Sample.truncate (getFloorHeatmap s fl) =
     filter (\<lambda>p. strict_eq (Num (detectFloor s (sz p))) fl) (points s)"
  by (simp add: getFloorHeatmap_def Let_def Sample.truncate_def comp_def Sample_rebuild)

theorem getFloorHeatmap_filters_on_current_floor:
  "map Sample.truncate (getFloorHeatmap s fl) =
     filter (\<lambda>p. strict_eq (Num (detectFloor s (sz p))) fl) (points s) \<and>
   (filter (\<lambda>p. strict_eq (Num (detectFloor s (sz p))) fl) (points s) = [] \<longrightarrow>
      getFloorHeatmap s fl = []) \<and>
   (\<not> in_floor_range fl \<longrightarrow> getFloorHeatmap (run new_session cs) fl = [])"
proof (intro conjI impI)
  show "map Sample.truncate (getFloorHeatmap s fl) =
     filter (\<lambda>p. strict_eq (Num (detectFloor s (sz p))) fl) (points s)"
    by (rule getFloorHeatmap_samples)
  show "getFloorHeatmap s fl = []"
    if "filter (\<lambda>p. strict_eq (Num (detectFloor s (sz p))) fl) (points s) = []"
    using that by (simp add: getFloorHeatmap_def)
  show "getFloorHeatmap (run new_session cs) fl = []" if "\<not> in_floor_range fl"
  proof -
    have "reachable_floor (run new_session cs)"
      using reachable_floor_new by (rule reachable_floor_run)
    then have "filter (\<lambda>p. strict_eq (Num (detectFloor (run new_session cs) (sz p))) fl)
        (points (run new_session cs)) = []"
      using that by (simp add: no_match_outside_range)
    then show ?thesis by (simp add: getFloorHeatmap_def)
  qed
qed

text \<open>
  The witness of C7: after \<open>addPoint(1, 2, 3, 1000)\<close> the current floor is 1 and the
  point's \<open>z = 3\<close> gives floor 2 from there: the heat map of floor 99 and that of floor 1
  are empty, that of floor 2 is the point.
\<close>

theorem getFloorHeatmap_filters_on_current_floor_witness:
  "\<not> in_floor_range (Num (Fin 99)) \<and>
   getFloorHeatmap (run new_session [(Num (Fin 1), Num (Fin 2), Num (Fin 3), Num (Fin 1000))])
     (Num (Fin 99)) = [] \<and>
   filter (\<lambda>p. strict_eq (Num (detectFloor
       (run new_session [(Num (Fin 1), Num (Fin 2), Num (Fin 3), Num (Fin 1000))]) (sz p)))
       (Num (Fin 1)))
     (points (run new_session [(Num (Fin 1), Num (Fin 2), Num (Fin 3), Num (Fin 1000))])) = [] \<and>
   getFloorHeatmap (run new_session [(Num (Fin 1), Num (Fin 2), Num (Fin 3), Num (Fin 1000))])
     (Num (Fin 1)) = [] \<and>
   map Sample.truncate
     (getFloorHeatmap (run new_session [(Num (Fin 1), Num (Fin 2), Num (Fin 3), Num (Fin 1000))])
        (Num (Fin 2))) =
     [\<lparr>sx = Num (Fin 1), sy = Num (Fin 2), sz = Num (Fin 3), stimestamp = Num (Fin 1000),
       magnitude = Fin (sqrt 14)\<rparr>]"
  using getFloorHeatmap_filters_on_current_floor
      [where s = "run new_session [(Num (Fin 1), Num (Fin 2), Num (Fin 3), Num (Fin 1000))]"
         and fl = "Num (Fin 99)"
         and cs = "[(Num (Fin 1), Num (Fin 2), Num (Fin 3), Num (Fin 1000))]"]
    getFloorHeatmap_filters_on_current_floor
      [where s = "run new_session [(Num (Fin 1), Num (Fin 2), Num (Fin 3), Num (Fin 1000))]"
         and fl = "Num (Fin 1)"
         and cs = "[(Num (Fin 1), Num (Fin 2), Num (Fin 3), Num (Fin 1000))]"]
    getFloorHeatmap_filters_on_current_floor
      [where s = "run new_session [(Num (Fin 1), Num (Fin 2), Num (Fin 3), Num (Fin 1000))]"
         and fl = "Num (Fin 2)"
         and cs = "[(Num (Fin 1), Num (Fin 2), Num (Fin 3), Num (Fin 1000))]"]
  by (simp add: eval_defs in_floor_range_def is_floor_def)

subsection \<open>C8: the vertical heat map has thirteen entries\<close>

lemma length_count_visit: "length (count_visit traj fv i) = length fv"
  by (simp add: count_visit_def Let_def split: option.splits)

lemma map_update_same:
  assumes "f e = f (xs ! k)"
  shows "map f (xs[k := e]) = map f xs"
proof (cases "k < length xs")
  case True
  with assms show ?thesis by (simp add: map_update list_update_same_conv)
next
  case False
  then have "xs[k := e] = xs" by (intro list_update_beyond) simp
  then show ?thesis by simp
qed

lemma fs_floor_count_visit: "map fs_floor (count_visit traj fv i) = map fs_floor fv"
  by (simp add: count_visit_def Let_def map_update_same split: option.splits)

lemma floorName_count_visit: "map floorName (count_visit traj fv i) = map floorName fv"
  by (simp add: count_visit_def Let_def map_update_same split: option.splits)

lemma fs_floor_foldl: "map fs_floor (foldl (count_visit traj) fv is) = map fs_floor fv"
  by (induction "is" arbitrary: fv) (simp_all add: fs_floor_count_visit)

lemma floorName_foldl: "map floorName (foldl (count_visit traj) fv is) = map floorName fv"
  by (induction "is" arbitrary: fv) (simp_all add: floorName_count_visit)

lemma length_foldl: "length (foldl (count_visit traj) fv is) = length fv"
  by (induction "is" arbitrary: fv) (simp_all add: length_count_visit)

lemma upt_13: "[0..<13] = [0, 1, 2, 3, 4, 5, 6, 7, 8, 9, 10, 11, 12]"
  by (simp add: upt_rec)

text \<open>
  Claim C8: \<open>getVerticalHeatmap()\<close> returns exactly 13 entries, one for each floor from 0
  to 12 in this order, each with its floor and the name of this floor, whatever the
  trajectory holds; when the trajectory is empty every entry has duration 0, no visit and
  no last visit.
\<close>

theorem getVerticalHeatmap_thirteen_entries:
  "length (getVerticalHeatmap ToString s) = 13 \<and>
   map fs_floor (getVerticalHeatmap ToString s) = [0, 1, 2, 3, 4, 5, 6, 7, 8, 9, 10, 11, 12] \<and>
   map floorName (getVerticalHeatmap ToString s) =
     map (\<lambda>i. getFloorName ToString (Fin (real i))) [0, 1, 2, 3, 4, 5, 6, 7, 8, 9, 10, 11, 12] \<and>
   (trajectory s = [] \<longrightarrow>
      map fs_duration (getVerticalHeatmap ToString s) = replicate 13 (Fin 0) \<and>
      map visits (getVerticalHeatmap ToString s) = replicate 13 0 \<and>
      map lastVisit (getVerticalHeatmap ToString s) = replicate 13 None)"
proof (intro conjI impI)
  show "length (getVerticalHeatmap ToString s) = 13"
    by (simp add: getVerticalHeatmap_def length_foldl init_floorVisits_def)
  show "map fs_floor (getVerticalHeatmap ToString s) = [0, 1, 2, 3, 4, 5, 6, 7, 8, 9, 10, 11, 12]"
    by (simp add: getVerticalHeatmap_def fs_floor_foldl init_floorVisits_def upt_13)
  show "map floorName (getVerticalHeatmap ToString s) =
     map (\<lambda>i. getFloorName ToString (Fin (real i))) [0, 1, 2, 3, 4, 5, 6, 7, 8, 9, 10, 11, 12]"
    by (simp add: getVerticalHeatmap_def floorName_foldl init_floorVisits_def upt_13)
next
  assume "trajectory s = []"
  then have h: "getVerticalHeatmap ToString s = init_floorVisits ToString"
    by (simp add: getVerticalHeatmap_def)
  show "map fs_duration (getVerticalHeatmap ToString s) = replicate 13 (Fin 0)"
    unfolding h by (simp add: init_floorVisits_def upt_13 numeral_eq_Suc)
  show "map visits (getVerticalHeatmap ToString s) = replicate 13 0"
    unfolding h by (simp add: init_floorVisits_def upt_13 numeral_eq_Suc)
  show "map lastVisit (getVerticalHeatmap ToString s) = replicate 13 None"
    unfolding h by (simp add: init_floorVisits_def upt_13 numeral_eq_Suc)
qed

text \<open>
  The witness of C8: a new session.
\<close>

theorem getVerticalHeatmap_thirteen_entries_witness:
  "trajectory new_session = [] \<and>
   length (getVerticalHeatmap example_ToString new_session) = 13 \<and>
   map fs_floor (getVerticalHeatmap example_ToString new_session) =
     [0, 1, 2, 3, 4, 5, 6, 7, 8, 9, 10, 11, 12] \<and>
   take 2 (map floorName (getVerticalHeatmap example_ToString new_session)) =
     [''Car Top (Machine Room)'', ''Floor n''] \<and>
   map fs_duration (getVerticalHeatmap example_ToString new_session) = replicate 13 (Fin 0) \<and>
   map visits (getVerticalHeatmap example_ToString new_session) = replicate 13 0 \<and>
   map lastVisit (getVerticalHeatmap example_ToString new_session) = replicate 13 None"
  using getVerticalHeatmap_thirteen_entries [where s = new_session and ToString = example_ToString]
  by (simp add: new_session_def getFloorName_def example_ToString_def num_ge_def)

subsection \<open>C9: the path\<close>

text \<open>
  Claim C9 as stated: the duration of step \<open>i\<close> of \<open>getPath()\<close> is the seconds to the
  next trajectory entry, \<open>(next.timestamp - entry.timestamp) / 1000\<close>. It fails: the code
  rounds the seconds with \<open>Math.round\<close>. After \<open>addPoint(0, 0, 3, 1000)\<close> and
  \<open>addPoint(0, 0, -3, 2400)\<close> on a new session the trajectory has the timestamps 1000 and
  2400, which are 1.4 seconds apart, and the duration of the first step is 1.
\<close>

theorem getPath_duration_not_exact_seconds:
  "map t_timestamp (trajectory (run new_session
      [(Num (Fin 0), Num (Fin 0), Num (Fin 3), Num (Fin 1000)),
       (Num (Fin 0), Num (Fin 0), Num (Fin (- 3)), Num (Fin 2400))])) =
     [Num (Fin 1000), Num (Fin 2400)] \<and>
   num_div (num_sub (Fin 2400) (Fin 1000)) (Fin 1000) = Fin (7 / 5) \<and>
   p_duration (getPath example_ToString example_time (run new_session
      [(Num (Fin 0), Num (Fin 0), Num (Fin 3), Num (Fin 1000)),
       (Num (Fin 0), Num (Fin 0), Num (Fin (- 3)), Num (Fin 2400))]) ! 0) = Fin 1 \<and>
   p_duration (getPath example_ToString example_time (run new_session
      [(Num (Fin 0), Num (Fin 0), Num (Fin 3), Num (Fin 1000)),
       (Num (Fin 0), Num (Fin 0), Num (Fin (- 3)), Num (Fin 2400))]) ! 0) \<noteq>
     num_div (num_sub (Fin 2400) (Fin 1000)) (Fin 1000)"
  by (simp add: eval_defs getPath_def)

text \<open>
  Claim C9, amended: \<open>getPath()\<close> maps the trajectory, in order, to steps; step \<open>i\<close>
  (from 0) has the order \<open>i + 1\<close>, the floor of entry \<open>i\<close>, its name and the text of its
  time, and as its duration the seconds to the next entry rounded by \<open>Math.round\<close>, or 0
  when entry \<open>i\<close> is the last.
\<close>

theorem getPath_steps_rounded_duration:
  "length (getPath ToString toLocaleTimeString s) = length (trajectory s) \<and>
   (\<forall>i < length (trajectory s).
      order (getPath ToString toLocaleTimeString s ! i) = i + 1 \<and>
      p_floor (getPath ToString toLocaleTimeString s ! i) = t_floor (trajectory s ! i) \<and>
      p_floorName (getPath ToString toLocaleTimeString s ! i) =
        getFloorName ToString (t_floor (trajectory s ! i)) \<and>
      time (getPath ToString toLocaleTimeString s ! i) =
        toLocaleTimeString (t_timestamp (trajectory s ! i)) \<and>
      p_duration (getPath ToString toLocaleTimeString s ! i) =
        (if i + 1 < length (trajectory s)
         then Math_round (num_div (num_sub (to_number (t_timestamp (trajectory s ! (i + 1))))
                                           (to_number (t_timestamp (trajectory s ! i))))
                                  (Fin 1000))
         else Fin 0))"
  by (simp add: getPath_def Let_def)

text \<open>
  The witness of C9: the session of the counterexample.
\<close>

theorem getPath_steps_rounded_duration_witness:
  "length (trajectory (run new_session
      [(Num (Fin 0), Num (Fin 0), Num (Fin 3), Num (Fin 1000)),
       (Num (Fin 0), Num (Fin 0), Num (Fin (- 3)), Num (Fin 2400))])) = 2 \<and>
   map order (getPath example_ToString example_time (run new_session
      [(Num (Fin 0), Num (Fin 0), Num (Fin 3), Num (Fin 1000)),
       (Num (Fin 0), Num (Fin 0), Num (Fin (- 3)), Num (Fin 2400))])) = [1, 2] \<and>
   map p_duration (getPath example_ToString example_time (run new_session
      [(Num (Fin 0), Num (Fin 0), Num (Fin 3), Num (Fin 1000)),
       (Num (Fin 0), Num (Fin 0), Num (Fin (- 3)), Num (Fin 2400))])) = [Fin 1, Fin 0]"
proof -
  define s where "s = run new_session
      [(Num (Fin 0), Num (Fin 0), Num (Fin 3), Num (Fin 1000)),
       (Num (Fin 0), Num (Fin 0), Num (Fin (- 3)), Num (Fin 2400))]"
  let ?p = "getPath example_ToString example_time s"
  have t: "trajectory s = [\<lparr>t_floor = Fin 1, t_timestamp = Num (Fin 1000), t_duration = Fin 0\<rparr>,
      \<lparr>t_floor = Fin 0, t_timestamp = Num (Fin 2400), t_duration = Fin 0\<rparr>]"
    by (simp add: s_def eval_defs)
  note th = getPath_steps_rounded_duration
    [where s = s and ToString = example_ToString and toLocaleTimeString = example_time]
  from th have len: "length ?p = 2" by (simp add: t)
  from th have "order (?p ! 0) = 1 \<and> p_duration (?p ! 0) = Fin 1"
    by (simp add: t num_sub_def)
  moreover from th have "order (?p ! 1) = 2 \<and> p_duration (?p ! 1) = Fin 0"
    by (simp add: t)
  ultimately have "map order ?p = [1, 2] \<and> map p_duration ?p = [Fin 1, Fin 0]"
    using len by (auto simp: list_eq_iff_nth_eq less_Suc_eq numeral_2_eq_2)
  with t show ?thesis unfolding s_def by simp
qed

subsection \<open>C10: ties of the workflow analysis\<close>

lemma set_insert_sorted: "set (insert_sorted cmp a bs) = insert a (set bs)"
  by (induction bs) auto

lemma set_Array_sort: "set (Array_sort cmp xs) = set xs"
  by (induction xs) (simp_all add: Array_sort_def set_insert_sorted)

lemma Array_sort_Cons: "Array_sort cmp (x # xs) = insert_sorted cmp x (Array_sort cmp xs)"
  by (simp add: Array_sort_def)

lemma ties_insert_sorted:
  assumes "\<forall>b \<in> set bs. fs_floor a < fs_floor b"
    and "sorted_wrt (\<lambda>a b. fs_duration a = fs_duration b \<longrightarrow> fs_floor a < fs_floor b) bs"
  shows "sorted_wrt (\<lambda>a b. fs_duration a = fs_duration b \<longrightarrow> fs_floor a < fs_floor b)
           (insert_sorted by_duration a bs)"
  using assms
proof (induction bs)
  case Nil
  then show ?case by simp
next
  case (Cons b bs)
  show ?case
  proof (cases "num_gt (by_duration a b) (Fin 0)")
    case True
    then have "fs_duration a \<noteq> fs_duration b"
      unfolding by_duration_def by (rule positive_difference_differs)
    with True Cons show ?thesis
      by (auto simp: set_insert_sorted)
  next
    case False
    with Cons.prems show ?thesis by auto
  qed
qed

lemma ties_Array_sort:
  assumes "sorted_wrt (\<lambda>a b. fs_floor a < fs_floor b) xs"
  shows "sorted_wrt (\<lambda>a b. fs_duration a = fs_duration b \<longrightarrow> fs_floor a < fs_floor b)
           (Array_sort by_duration xs)"
  using assms
proof (induction xs)
  case Nil
  then show ?case by (simp add: Array_sort_def)
next
  case (Cons x xs)
  then show ?case
    by (simp add: Array_sort_Cons ties_insert_sorted set_Array_sort)
qed

lemma descending_insert_sorted:
  assumes "\<forall>b \<in> set bs. fs_duration b \<noteq> NaN" and "fs_duration a \<noteq> NaN"
    and "sorted_wrt (\<lambda>a b. \<not> num_lt (fs_duration a) (fs_duration b)) bs"
  shows "sorted_wrt (\<lambda>a b. \<not> num_lt (fs_duration a) (fs_duration b))
           (insert_sorted by_duration a bs)"
  using assms
proof (induction bs)
  case Nil
  then show ?case by simp
next
  case (Cons b bs)
  have iff: "num_gt (by_duration a b) (Fin 0) = num_lt (fs_duration a) (fs_duration b)"
    unfolding by_duration_def using Cons.prems by (intro positive_difference_iff) auto
  show ?case
  proof (cases "num_lt (fs_duration a) (fs_duration b)")
    case True
    with iff Cons show ?thesis
      by (auto simp: set_insert_sorted dest: num_lt_asym)
  next
    case False
    have "\<not> num_lt (fs_duration a) (fs_duration c)" if "c \<in> set bs" for c
    proof
      assume "num_lt (fs_duration a) (fs_duration c)"
      with Cons.prems(1) have "num_lt (fs_duration a) (fs_duration b) \<or> num_lt (fs_duration b) (fs_duration c)"
        by (intro num_lt_cotrans) auto
      with False Cons.prems(3) that show False by auto
    qed
    with False iff Cons.prems show ?thesis by auto
  qed
qed

lemma descending_Array_sort:
  assumes "\<forall>b \<in> set xs. fs_duration b \<noteq> NaN"
  shows "sorted_wrt (\<lambda>a b. \<not> num_lt (fs_duration a) (fs_duration b)) (Array_sort by_duration xs)"
  using assms
proof (induction xs)
  case Nil
  then show ?case by (simp add: Array_sort_def)
next
  case (Cons x xs)
  then show ?case
    by (simp add: Array_sort_Cons descending_insert_sorted set_Array_sort)
qed

lemma getWorkflowAnalysis_alt:
  "getWorkflowAnalysis ToString s =
     Array_sort by_duration
       (filter (\<lambda>f. num_gt (fs_duration f) (Fin 0)) (getVerticalHeatmap ToString s))"
  by (simp add: getWorkflowAnalysis_def by_duration_def[abs_def])

lemma heatmap_floors_ascending:
  "sorted_wrt (\<lambda>a b. fs_floor a < fs_floor b) (getVerticalHeatmap ToString s)"
proof -
  have "map fs_floor (getVerticalHeatmap ToString s) = [0..<13]"
    by (simp add: getVerticalHeatmap_def fs_floor_foldl init_floorVisits_def comp_def)
  then have "sorted_wrt (<) (map fs_floor (getVerticalHeatmap ToString s))"
    by (simp only: sorted_wrt_upt)
  then show ?thesis by (simp add: sorted_wrt_map)
qed

text \<open>
  Claim C10: in the result of \<open>getWorkflowAnalysis()\<close>, of two floors with the same
  duration the one with the smaller number comes first. The result is moreover in
  descending order of duration, and its entries are the entries of
  \<open>getVerticalHeatmap()\<close> whose duration is positive.
\<close>

theorem getWorkflowAnalysis_ties_ascending_floor:
  "sorted_wrt (\<lambda>a b. fs_duration a = fs_duration b \<longrightarrow> fs_floor a < fs_floor b)
     (getWorkflowAnalysis ToString s) \<and>
   sorted_wrt (\<lambda>a b. \<not> num_lt (fs_duration a) (fs_duration b)) (getWorkflowAnalysis ToString s) \<and>
   set (getWorkflowAnalysis ToString s) =
     set (filter (\<lambda>f. num_gt (fs_duration f) (Fin 0)) (getVerticalHeatmap ToString s))"
proof (intro conjI)
  let ?pos = "filter (\<lambda>f. num_gt (fs_duration f) (Fin 0)) (getVerticalHeatmap ToString s)"
  have "sorted_wrt (\<lambda>a b. fs_floor a < fs_floor b) ?pos"
    using heatmap_floors_ascending by (rule sorted_wrt_filter)
  then show "sorted_wrt (\<lambda>a b. fs_duration a = fs_duration b \<longrightarrow> fs_floor a < fs_floor b)
     (getWorkflowAnalysis ToString s)"
    unfolding getWorkflowAnalysis_alt by (rule ties_Array_sort)
  have "\<forall>b \<in> set ?pos. fs_duration b \<noteq> NaN"
    by (auto dest: num_gt_not_NaN)
  then show "sorted_wrt (\<lambda>a b. \<not> num_lt (fs_duration a) (fs_duration b))
     (getWorkflowAnalysis ToString s)"
    unfolding getWorkflowAnalysis_alt by (rule descending_Array_sort)
  show "set (getWorkflowAnalysis ToString s) = set ?pos"
    unfolding getWorkflowAnalysis_alt by (rule set_Array_sort)
qed

text \<open>
  The witness of C10: a trajectory through the floors 1, 0, 2 and 3 at the times 1000, 2400,
  3800 and 3900. The floors 1 and 0 both last 1.4 seconds, floor 2 lasts 0.1 seconds, and
  the analysis lists the floors 0, 1, 2.
\<close>

theorem getWorkflowAnalysis_ties_ascending_floor_witness:
  "map (\<lambda>f. (fs_floor f, fs_duration f)) (getWorkflowAnalysis example_ToString
     \<lparr>points = [], currentFloor = Fin 3,
      trajectory = [\<lparr>t_floor = Fin 1, t_timestamp = Num (Fin 1000), t_duration = Fin 0\<rparr>,
                    \<lparr>t_floor = Fin 0, t_timestamp = Num (Fin 2400), t_duration = Fin 0\<rparr>,
                    \<lparr>t_floor = Fin 2, t_timestamp = Num (Fin 3800), t_duration = Fin 0\<rparr>,
                    \<lparr>t_floor = Fin 3, t_timestamp = Num (Fin 3900), t_duration = Fin 0\<rparr>]\<rparr>) =
     [(0, Fin (7 / 5)), (1, Fin (7 / 5)), (2, Fin (1 / 10))] \<and>
   sorted_wrt (\<lambda>a b. fs_duration a = fs_duration b \<longrightarrow> fs_floor a < fs_floor b)
     (getWorkflowAnalysis example_ToString
     \<lparr>points = [], currentFloor = Fin 3,
      trajectory = [\<lparr>t_floor = Fin 1, t_timestamp = Num (Fin 1000), t_duration = Fin 0\<rparr>,
                    \<lparr>t_floor = Fin 0, t_timestamp = Num (Fin 2400), t_duration = Fin 0\<rparr>,
                    \<lparr>t_floor = Fin 2, t_timestamp = Num (Fin 3800), t_duration = Fin 0\<rparr>,
                    \<lparr>t_floor = Fin 3, t_timestamp = Num (Fin 3900), t_duration = Fin 0\<rparr>]\<rparr>)"
  using getWorkflowAnalysis_ties_ascending_floor [where ToString = example_ToString and s =
     "\<lparr>points = [], currentFloor = Fin 3,
      trajectory = [\<lparr>t_floor = Fin 1, t_timestamp = Num (Fin 1000), t_duration = Fin 0\<rparr>,
                    \<lparr>t_floor = Fin 0, t_timestamp = Num (Fin 2400), t_duration = Fin 0\<rparr>,
                    \<lparr>t_floor = Fin 2, t_timestamp = Num (Fin 3800), t_duration = Fin 0\<rparr>,
                    \<lparr>t_floor = Fin 3, t_timestamp = Num (Fin 3900), t_duration = Fin 0\<rparr>]\<rparr>"]
  by (simp add: getWorkflowAnalysis_def getVerticalHeatmap_def init_floorVisits_def count_visit_def
      floor_key_def Array_sort_def num_sub_def num_gt_def Let_def upt_rec)

end
